theory Spec2Isabelle
  imports Main
begin

section \<open>Data model of \<^verbatim>\<open>src/index.tsx\<close>\<close>

text \<open>
  The type \<^verbatim>\<open>Theme = 'light' | 'dark' | 'system'\<close> exists only for the type checker:
  at run time a theme is whatever string \<^verbatim>\<open>localStorage.getItem\<close> returned or
  \<^verbatim>\<open>setTheme\<close> was called with (the storage read is cast with \<^verbatim>\<open>as Theme\<close>).
  A theme is therefore a string here, and \<open>is_Theme\<close> picks out the three literals.
\<close>

type_synonym Theme = string

definition is_Theme :: "string \<Rightarrow> bool" where
  "is_Theme t = (t = ''light'' \<or> t = ''dark'' \<or> t = ''system'')"

text \<open>\<^verbatim>\<open>interface ThemeConfig\<close>: every field optional (\<open>None\<close> is a key that is not given).\<close>

record ThemeConfig =
  lightClass_opt :: "string option"
  darkClass_opt :: "string option"
  systemClass_opt :: "string option"
  storageKey_opt :: "string option"
  disableTransition_opt :: "bool option"
  followSystemTheme_opt :: "bool option"

text \<open>The object \<^verbatim>\<open>finalConfig\<close>: the defaults, overridden by the keys the caller gave.\<close>

record FinalConfig =
  lightClass :: string
  darkClass :: string
  systemClass :: string
  storageKey :: string
  disableTransition :: bool
  followSystemTheme :: bool

definition or_default :: "'a option \<Rightarrow> 'a \<Rightarrow> 'a" where
  "or_default given dflt = (case given of None \<Rightarrow> dflt | Some v \<Rightarrow> v)"

definition finalConfig :: "ThemeConfig \<Rightarrow> FinalConfig" where
  "finalConfig config =
     \<lparr> lightClass = or_default (lightClass_opt config) ''light'',
       darkClass = or_default (darkClass_opt config) ''dark'',
       systemClass = or_default (systemClass_opt config) ''system'',
       storageKey = or_default (storageKey_opt config) ''theme'',
       disableTransition = or_default (disableTransition_opt config) False,
       followSystemTheme = or_default (followSystemTheme_opt config) True \<rparr>"

text \<open>The empty object \<^verbatim>\<open>{}\<close>, the default of the \<^verbatim>\<open>config\<close> prop.\<close>

definition empty_config :: ThemeConfig where
  "empty_config =
     \<lparr> lightClass_opt = None, darkClass_opt = None, systemClass_opt = None,
       storageKey_opt = None, disableTransition_opt = None, followSystemTheme_opt = None \<rparr>"

text \<open>\<^verbatim>\<open>interface ThemeProviderProps\<close> (the children play no part in the theme state).\<close>

record ThemeProviderProps =
  defaultTheme_prop :: "Theme option"
  config_prop :: "ThemeConfig option"

definition defaultTheme :: "ThemeProviderProps \<Rightarrow> Theme" where
  "defaultTheme props = or_default (defaultTheme_prop props) ''light''"

definition props_config :: "ThemeProviderProps \<Rightarrow> FinalConfig" where
  "props_config props = finalConfig (or_default (config_prop props) empty_config)"

text \<open>
  \<^verbatim>\<open>interface ThemeContextType\<close>, the object handed to consumers. Its two functions
  \<^verbatim>\<open>toggleTheme\<close> and \<^verbatim>\<open>setTheme\<close> are the events \<open>ToggleTheme\<close> and \<open>SetTheme\<close> below.
\<close>

record ThemeContextType =
  theme :: Theme
  systemTheme :: string
  effectiveTheme :: string
  config :: FinalConfig

section \<open>The browser\<close>

text \<open>
  What the provider touches of the browser: the origin's \<^verbatim>\<open>localStorage\<close>, the class
  list of \<^verbatim>\<open>document.documentElement\<close> (a DOMTokenList: an ordered set of tokens), what
  the media query \<^verbatim>\<open>(prefers-color-scheme: dark)\<close> matches, and, oldest first, the calls
  that mutated the class list or the storage or forced a style recomputation. Class
  names are taken to be tokens the DOM accepts; exceptions raised inside the browser's
  own implementation (a token that is empty or holds white space, a full or disabled
  storage) are outside this model.
\<close>

datatype dom_call =
    ClassListAdd string
  | ClassListRemove "string list"
  | SetItem string string
  | GetComputedStyle

record browser =
  localStorage :: "string \<rightharpoonup> string"
  classList :: "string list"
  prefersDark :: bool
  calls :: "dom_call list"

text \<open>
  \<open>None\<close> is an execution context where \<^verbatim>\<open>typeof window === 'undefined'\<close>: there
  \<^verbatim>\<open>window\<close>, \<^verbatim>\<open>document\<close> and \<^verbatim>\<open>localStorage\<close> are unbound names, and evaluating
  one of them throws a ReferenceError.
\<close>

type_synonym window = "browser option"

datatype error = ReferenceError | Error string

primrec andThen :: "error + 'a \<Rightarrow> ('a \<Rightarrow> error + 'b) \<Rightarrow> error + 'b" where
  "andThen (Inl e) f = Inl e"
| "andThen (Inr x) f = f x"

definition token_add :: "string \<Rightarrow> string list \<Rightarrow> string list" where
  "token_add t ts = (if t \<in> set ts then ts else ts @ [t])"

definition token_remove :: "string list \<Rightarrow> string list \<Rightarrow> string list" where
  "token_remove rs ts = filter (\<lambda>t. t \<notin> set rs) ts"

definition localStorage_getItem :: "string \<Rightarrow> window \<Rightarrow> error + string option" where
  "localStorage_getItem k w =
     (case w of None \<Rightarrow> Inl ReferenceError | Some b \<Rightarrow> Inr (localStorage b k))"

definition localStorage_setItem :: "string \<Rightarrow> string \<Rightarrow> window \<Rightarrow> error + window" where
  "localStorage_setItem k v w =
     (case w of None \<Rightarrow> Inl ReferenceError
      | Some b \<Rightarrow> Inr (Some (b\<lparr> localStorage := (localStorage b)(k \<mapsto> v),
                                calls := calls b @ [SetItem k v] \<rparr>)))"

definition classList_add :: "string \<Rightarrow> window \<Rightarrow> error + window" where
  "classList_add t w =
     (case w of None \<Rightarrow> Inl ReferenceError
      | Some b \<Rightarrow> Inr (Some (b\<lparr> classList := token_add t (classList b),
                                calls := calls b @ [ClassListAdd t] \<rparr>)))"

definition classList_remove :: "string list \<Rightarrow> window \<Rightarrow> error + window" where
  "classList_remove ts w =
     (case w of None \<Rightarrow> Inl ReferenceError
      | Some b \<Rightarrow> Inr (Some (b\<lparr> classList := token_remove ts (classList b),
                                calls := calls b @ [ClassListRemove ts] \<rparr>)))"

definition getComputedStyle_opacity :: "window \<Rightarrow> error + window" where
  "getComputedStyle_opacity w =
     (case w of None \<Rightarrow> Inl ReferenceError
      | Some b \<Rightarrow> Inr (Some (b\<lparr> calls := calls b @ [GetComputedStyle] \<rparr>)))"

definition matchMedia_matches :: "window \<Rightarrow> error + bool" where
  "matchMedia_matches w =
     (case w of None \<Rightarrow> Inl ReferenceError | Some b \<Rightarrow> Inr (prefersDark b))"

section \<open>The provider\<close>

subsection \<open>The initializer of the \<^verbatim>\<open>theme\<close> state (lines 47 to 53)\<close>

text \<open>\<^verbatim>\<open>stored || defaultTheme\<close>: \<^verbatim>\<open>null\<close> and the empty string are the falsy values.\<close>

definition stored_or :: "string option \<Rightarrow> Theme \<Rightarrow> Theme" where
  "stored_or stored dflt =
     (case stored of None \<Rightarrow> dflt | Some s \<Rightarrow> if s = [] then dflt else s)"

definition initial_theme :: "FinalConfig \<Rightarrow> Theme \<Rightarrow> window \<Rightarrow> error + Theme" where
  "initial_theme cfg dflt w =
     (if w \<noteq> None then
        andThen (localStorage_getItem (storageKey cfg) w) (\<lambda>stored.
        Inr (stored_or stored dflt))
      else Inr dflt)"

subsection \<open>The derived value (line 55) and the updater of \<^verbatim>\<open>toggleTheme\<close> (lines 110 to 114)\<close>

definition effectiveTheme_of :: "Theme \<Rightarrow> string \<Rightarrow> string" where
  "effectiveTheme_of t sys = (if t = ''system'' then sys else t)"

definition toggleTheme :: "Theme \<Rightarrow> Theme" where
  "toggleTheme t =
     (if t = ''light'' then ''dark''
      else if t = ''dark'' then ''system''
      else ''light'')"

subsection \<open>The effect that watches the operating system (lines 57 to 72)\<close>

text \<open>
  The result is the argument of the \<^verbatim>\<open>setSystemTheme\<close> call the effect makes, if it makes
  one, and whether it registered \<^verbatim>\<open>handleChange\<close> as a \<^verbatim>\<open>change\<close> listener of the media
  query (the listener belongs to this provider, so the provider's state records it).
\<close>

definition matches_theme :: "bool \<Rightarrow> string" where
  "matches_theme m = (if m then ''dark'' else ''light'')"

definition observer_effect :: "FinalConfig \<Rightarrow> window \<Rightarrow> error + (string option \<times> bool)" where
  "observer_effect cfg w =
     (if w = None then Inr (None, False)
      else if followSystemTheme cfg then
        andThen (matchMedia_matches w) (\<lambda>m.
        Inr (Some (matches_theme m), True))
      else Inr (None, False))"

subsection \<open>The synchronization effect (lines 74 to 103)\<close>

definition sync_effect :: "FinalConfig \<Rightarrow> Theme \<Rightarrow> string \<Rightarrow> window \<Rightarrow> error + window" where
  "sync_effect cfg t eff w =
     (if w = None then Inr w
      else
        andThen (if disableTransition cfg then classList_add ''no-transitions'' w
                 else Inr w) (\<lambda>w.
        andThen (classList_remove [lightClass cfg, darkClass cfg, systemClass cfg] w) (\<lambda>w.
        andThen (if eff = ''dark'' then classList_add (darkClass cfg) w
                 else if eff = ''light'' then classList_add (lightClass cfg) w
                 else classList_add (systemClass cfg) w) (\<lambda>w.
        andThen (localStorage_setItem (storageKey cfg) t w) (\<lambda>w.
        if disableTransition cfg then
          andThen (getComputedStyle_opacity w) (\<lambda>w.
          classList_remove [''no-transitions''] w)
        else Inr w)))))"

subsection \<open>Rendering, and the memoized context value (lines 105 to 119)\<close>

text \<open>
  The state of a mounted provider: its two \<^verbatim>\<open>useState\<close> cells, whether its
  \<^verbatim>\<open>handleChange\<close> is registered on the media query, the number of renders so
  far, the dependency list the \<^verbatim>\<open>useMemo\<close> cache was filled under, and the cached
  value, which is the one given to \<^verbatim>\<open>ThemeContext.Provider\<close>. \<^verbatim>\<open>finalConfig\<close> is
  a new object at every render, and React compares dependencies by identity: the number
  of the render stands for the identity of that render's \<^verbatim>\<open>finalConfig\<close>.
\<close>

type_synonym memo_deps = "Theme \<times> string \<times> string \<times> nat"

record provider =
  themeState :: Theme
  systemThemeState :: string
  handleChange_registered :: bool
  renderCount :: nat
  memoDeps :: memo_deps
  provided :: ThemeContextType

definition fresh_value :: "FinalConfig \<Rightarrow> Theme \<Rightarrow> string \<Rightarrow> ThemeContextType" where
  "fresh_value cfg t sys =
     \<lparr> theme = t, systemTheme = sys, effectiveTheme = effectiveTheme_of t sys, config = cfg \<rparr>"

definition first_render :: "ThemeProviderProps \<Rightarrow> Theme \<Rightarrow> provider" where
  "first_render props t =
     \<lparr> themeState = t, systemThemeState = ''light'', handleChange_registered = False,
       renderCount = 1,
       memoDeps = (t, ''light'', effectiveTheme_of t ''light'', 0),
       provided = fresh_value (props_config props) t ''light'' \<rparr>"

definition useMemo :: "memo_deps \<Rightarrow> ThemeContextType \<Rightarrow> memo_deps \<Rightarrow> ThemeContextType \<Rightarrow> ThemeContextType" where
  "useMemo cached_deps cached deps computed = (if deps = cached_deps then cached else computed)"

definition render :: "ThemeProviderProps \<Rightarrow> provider \<Rightarrow> provider" where
  "render props p =
     (let t = themeState p; sys = systemThemeState p;
          deps = (t, sys, effectiveTheme_of t sys, renderCount p)
      in p\<lparr> renderCount := Suc (renderCount p),
            memoDeps := deps,
            provided := useMemo (memoDeps p) (provided p) deps
                          (fresh_value (props_config props) t sys) \<rparr>)"

text \<open>
  A render followed by its effects. The dependency list of the synchronization effect
  holds \<^verbatim>\<open>finalConfig\<close>, new at every render, so the effect runs after every render;
  the observer effect depends on \<^verbatim>\<open>followSystemTheme\<close> alone and runs at the mount only
  (the props stay the same for the life of the provider here).
\<close>

definition rerender :: "ThemeProviderProps \<Rightarrow> provider \<times> window \<Rightarrow> error + (provider \<times> window)" where
  "rerender props s =
     (let p = render props (fst s) in
      andThen (sync_effect (props_config props) (themeState p)
                 (effectiveTheme_of (themeState p) (systemThemeState p)) (snd s)) (\<lambda>w.
      Inr (p, w)))"

text \<open>
  The two state setters. React skips the render, and with it the effects, when the new
  state is identical to the current one.
\<close>

definition setThemeState :: "ThemeProviderProps \<Rightarrow> Theme \<Rightarrow> provider \<times> window \<Rightarrow> error + (provider \<times> window)" where
  "setThemeState props t s =
     (if t = themeState (fst s) then Inr s
      else rerender props ((fst s)\<lparr> themeState := t \<rparr>, snd s))"

definition setSystemTheme :: "ThemeProviderProps \<Rightarrow> string \<Rightarrow> provider \<times> window \<Rightarrow> error + (provider \<times> window)" where
  "setSystemTheme props sys s =
     (if sys = systemThemeState (fst s) then Inr s
      else rerender props ((fst s)\<lparr> systemThemeState := sys \<rparr>, snd s))"

subsection \<open>Mounting, and the events of a session\<close>

text \<open>
  The mount: the first render, then both effects in the order they are declared, each
  closing over the values of that render; the \<^verbatim>\<open>setSystemTheme\<close> call of the observer
  effect takes effect after both have run.
\<close>

definition mount :: "ThemeProviderProps \<Rightarrow> window \<Rightarrow> error + (provider \<times> window)" where
  "mount props w =
     andThen (initial_theme (props_config props) (defaultTheme props) w) (\<lambda>t.
     andThen (observer_effect (props_config props) w) (\<lambda>obs.
     andThen (sync_effect (props_config props) t (effectiveTheme_of t ''light'') w) (\<lambda>w'.
     let p = (first_render props t)\<lparr> handleChange_registered := snd obs \<rparr> in
     case fst obs of
       None \<Rightarrow> Inr (p, w')
     | Some sys \<Rightarrow> setSystemTheme props sys (p, w'))))"

text \<open>
  A consumer calls \<^verbatim>\<open>setTheme(t)\<close> or \<^verbatim>\<open>toggleTheme()\<close>, or the operating system's
  preference becomes \<open>d\<close> (dark or not): the media query fires \<^verbatim>\<open>change\<close> when its value
  flips, and \<^verbatim>\<open>handleChange\<close> runs if it is registered.
\<close>

datatype event = SetTheme Theme | ToggleTheme | OsChange bool

definition os_change :: "ThemeProviderProps \<Rightarrow> bool \<Rightarrow> provider \<times> window \<Rightarrow> error + (provider \<times> window)" where
  "os_change props d s =
     (case snd s of
        None \<Rightarrow> Inr s
      | Some b \<Rightarrow>
          if prefersDark b = d then Inr s
          else if handleChange_registered (fst s)
            then setSystemTheme props (matches_theme d) (fst s, Some (b\<lparr> prefersDark := d \<rparr>))
          else Inr (fst s, Some (b\<lparr> prefersDark := d \<rparr>)))"

fun react :: "ThemeProviderProps \<Rightarrow> event \<Rightarrow> provider \<times> window \<Rightarrow> error + (provider \<times> window)" where
  "react props (SetTheme t) s = setThemeState props t s"
| "react props ToggleTheme s = setThemeState props (toggleTheme (themeState (fst s))) s"
| "react props (OsChange d) s = os_change props d s"

fun run :: "ThemeProviderProps \<Rightarrow> event list \<Rightarrow> provider \<times> window \<Rightarrow> error + (provider \<times> window)" where
  "run props [] s = Inr s"
| "run props (ev # evs) s = andThen (react props ev s) (run props evs)"

definition session :: "ThemeProviderProps \<Rightarrow> window \<Rightarrow> event list \<Rightarrow> error + (provider \<times> window)" where
  "session props w evs = andThen (mount props w) (run props evs)"

subsection \<open>The hook \<^verbatim>\<open>useTheme\<close> (lines 124 to 128)\<close>

text \<open>
  \<^verbatim>\<open>useContext\<close> returns the value of the nearest enclosing provider, and the default
  the context was created with, \<^verbatim>\<open>undefined\<close>, when there is none. The argument is the
  list of the values of the enclosing providers, nearest first.
\<close>

definition useContext :: "ThemeContextType list \<Rightarrow> ThemeContextType option" where
  "useContext enclosing = (case enclosing of [] \<Rightarrow> None | v # _ \<Rightarrow> Some v)"

definition useTheme :: "ThemeContextType list \<Rightarrow> error + ThemeContextType" where
  "useTheme enclosing =
     (case useContext enclosing of
        None \<Rightarrow> Inl (Error ''useTheme must be used within ThemeProvider'')
      | Some ctx \<Rightarrow> Inr ctx)"

section \<open>Observations and concrete inputs\<close>

text \<open>The class the synchronization effect adds for an effective theme (lines 88 to 94).\<close>

definition applied_class :: "FinalConfig \<Rightarrow> string \<Rightarrow> string" where
  "applied_class cfg eff =
     (if eff = ''dark'' then darkClass cfg
      else if eff = ''light'' then lightClass cfg
      else systemClass cfg)"

text \<open>
  Exactly one of the light class and the dark class is in a class list, and the system
  class is not.
\<close>

definition one_theme_class :: "FinalConfig \<Rightarrow> string list \<Rightarrow> bool" where
  "one_theme_class cfg cl =
     ((lightClass cfg \<in> set cl) \<noteq> (darkClass cfg \<in> set cl) \<and> systemClass cfg \<notin> set cl)"

text \<open>
  The three theme classes have three different names, and where the transition marker
  is in use neither the light class nor the dark class goes by the marker's name.
\<close>

definition distinct_classes :: "FinalConfig \<Rightarrow> bool" where
  "distinct_classes cfg =
     (distinct [lightClass cfg, darkClass cfg, systemClass cfg]
      \<and> \<not> (disableTransition cfg
             \<and> (lightClass cfg = ''no-transitions'' \<or> darkClass cfg = ''no-transitions'')))"

text \<open>What a session left on the document root and in the storage, if it ended in a browser.\<close>

definition root_classes :: "error + (provider \<times> window) \<Rightarrow> string list option" where
  "root_classes r =
     (case r of Inl e \<Rightarrow> None
      | Inr s \<Rightarrow> (case snd s of None \<Rightarrow> None | Some b \<Rightarrow> Some (classList b)))"

definition stored_under :: "string \<Rightarrow> error + (provider \<times> window) \<Rightarrow> string option" where
  "stored_under k r =
     (case r of Inl e \<Rightarrow> None
      | Inr s \<Rightarrow> (case snd s of None \<Rightarrow> None | Some b \<Rightarrow> localStorage b k))"

definition selected :: "error + (provider \<times> window) \<Rightarrow> Theme option" where
  "selected r = (case r of Inl e \<Rightarrow> None | Inr s \<Rightarrow> Some (themeState (fst s)))"

text \<open>A browser with an empty storage and a bare document root, the OS preferring light.\<close>

definition browser0 :: browser where
  "browser0 = \<lparr> localStorage = Map.empty, classList = [], prefersDark = False, calls = [] \<rparr>"

definition default_props :: ThemeProviderProps where
  "default_props = \<lparr> defaultTheme_prop = None, config_prop = None \<rparr>"

section \<open>The invariant of a mounted provider\<close>

text \<open>
  A configured theme class \<open>x\<close> is on the document root exactly when it is the class the
  last run of the synchronization effect applied (and was not taken off again as the
  transition marker).
\<close>

definition theme_class_synced :: "FinalConfig \<Rightarrow> string \<Rightarrow> string list \<Rightarrow> string \<Rightarrow> bool" where
  "theme_class_synced cfg eff cl x =
     ((x \<in> set cl) = (x = applied_class cfg eff \<and> \<not> (disableTransition cfg \<and> x = ''no-transitions'')))"

text \<open>The storage and the document root are those the synchronization effect leaves.\<close>

definition window_synced :: "FinalConfig \<Rightarrow> Theme \<Rightarrow> string \<Rightarrow> window \<Rightarrow> bool" where
  "window_synced cfg t eff w =
     (case w of None \<Rightarrow> True
      | Some b \<Rightarrow> localStorage b (storageKey cfg) = Some t
          \<and> theme_class_synced cfg eff (classList b) (lightClass cfg)
          \<and> theme_class_synced cfg eff (classList b) (darkClass cfg)
          \<and> theme_class_synced cfg eff (classList b) (systemClass cfg))"

text \<open>
  The memoized value is the one computed from the dependencies it is cached under, the
  system theme is one of the two strings the provider ever sets, and a provider that
  does not follow the system has no listener and has never set the system theme.
\<close>

definition cache_ok :: "FinalConfig \<Rightarrow> provider \<Rightarrow> bool" where
  "cache_ok cfg p =
     (provided p = fresh_value cfg (fst (memoDeps p)) (fst (snd (memoDeps p)))
      \<and> (systemThemeState p = ''light'' \<or> systemThemeState p = ''dark'')
      \<and> (followSystemTheme cfg \<or> (\<not> handleChange_registered p \<and> systemThemeState p = ''light'')))"

definition in_sync :: "ThemeProviderProps \<Rightarrow> provider \<times> window \<Rightarrow> bool" where
  "in_sync props s =
     (cache_ok (props_config props) (fst s)
      \<and> provided (fst s) = fresh_value (props_config props) (themeState (fst s)) (systemThemeState (fst s))
      \<and> window_synced (props_config props) (themeState (fst s))
           (effectiveTheme_of (themeState (fst s)) (systemThemeState (fst s))) (snd s))"

text \<open>Further concrete inputs.\<close>

definition browser_blue :: browser where
  "browser_blue = browser0\<lparr> localStorage := [''theme'' \<mapsto> ''blue''] \<rparr>"

definition browser_app_dark :: browser where
  "browser_app_dark = browser0\<lparr> localStorage := [''app-theme'' \<mapsto> ''dark''] \<rparr>"

definition browser_empty_string :: browser where
  "browser_empty_string = browser0\<lparr> localStorage := [''theme'' \<mapsto> []] \<rparr>"

definition props_app :: ThemeProviderProps where
  "props_app =
     \<lparr> defaultTheme_prop = Some ''light'',
       config_prop = Some (empty_config\<lparr> storageKey_opt := Some ''app-theme'' \<rparr>) \<rparr>"

definition props_nofollow :: ThemeProviderProps where
  "props_nofollow =
     \<lparr> defaultTheme_prop = None,
       config_prop = Some (empty_config\<lparr> followSystemTheme_opt := Some False \<rparr>) \<rparr>"

definition props_same_class :: ThemeProviderProps where
  "props_same_class =
     \<lparr> defaultTheme_prop = None,
       config_prop = Some (empty_config\<lparr> lightClass_opt := Some ''theme'',
                                          darkClass_opt := Some ''theme'' \<rparr>) \<rparr>"

definition props_system_light :: ThemeProviderProps where
  "props_system_light =
     \<lparr> defaultTheme_prop = None,
       config_prop = Some (empty_config\<lparr> systemClass_opt := Some ''light'' \<rparr>) \<rparr>"

definition props_system_dark :: ThemeProviderProps where
  "props_system_dark =
     \<lparr> defaultTheme_prop = Some ''dark'',
       config_prop = Some (empty_config\<lparr> systemClass_opt := Some ''dark'' \<rparr>) \<rparr>"

definition props_marker_light :: ThemeProviderProps where
  "props_marker_light =
     \<lparr> defaultTheme_prop = None,
       config_prop = Some (empty_config\<lparr> lightClass_opt := Some ''no-transitions'',
                                          disableTransition_opt := Some True \<rparr>) \<rparr>"

definition props_marker_dark :: ThemeProviderProps where
  "props_marker_dark =
     \<lparr> defaultTheme_prop = Some ''dark'',
       config_prop = Some (empty_config\<lparr> darkClass_opt := Some ''no-transitions'',
                                          disableTransition_opt := Some True \<rparr>) \<rparr>"

definition props_marker_light_off :: ThemeProviderProps where
  "props_marker_light_off =
     \<lparr> defaultTheme_prop = None,
       config_prop = Some (empty_config\<lparr> lightClass_opt := Some ''no-transitions'' \<rparr>) \<rparr>"

definition props_marker_system :: ThemeProviderProps where
  "props_marker_system =
     \<lparr> defaultTheme_prop = None,
       config_prop = Some (empty_config\<lparr> systemClass_opt := Some ''no-transitions'',
                                          disableTransition_opt := Some True \<rparr>) \<rparr>"

definition props_suppress :: ThemeProviderProps where
  "props_suppress =
     \<lparr> defaultTheme_prop = None,
       config_prop = Some (empty_config\<lparr> disableTransition_opt := Some True \<rparr>) \<rparr>"

section \<open>The effects and the setters, step by step\<close>

lemmas prims = classList_add_def classList_remove_def localStorage_setItem_def getComputedStyle_opacity_def

lemma sync_effect_None: "sync_effect cfg t eff None = Inr None"
  by (simp add: sync_effect_def)

lemma mem_token_add: "x \<in> set (token_add t ts) \<longleftrightarrow> x = t \<or> x \<in> set ts"
  by (auto simp: token_add_def)

lemma mem_token_remove: "x \<in> set (token_remove rs ts) \<longleftrightarrow> x \<in> set ts \<and> x \<notin> set rs"
  by (auto simp: token_remove_def)

lemma sync_effect_Some:
  "\<exists>b'. sync_effect cfg t eff (Some b) = Inr (Some b')
     \<and> localStorage b' = (localStorage b)(storageKey cfg \<mapsto> t)
     \<and> prefersDark b' = prefersDark b
     \<and> (\<forall>x. x \<in> set (classList b') \<longleftrightarrow>
            \<not> (disableTransition cfg \<and> x = ''no-transitions'')
            \<and> (x = applied_class cfg eff
               \<or> (x \<in> set (classList b) \<and> x \<notin> {lightClass cfg, darkClass cfg, systemClass cfg})))
     \<and> calls b' = calls b @
          (if disableTransition cfg then [ClassListAdd ''no-transitions''] else [])
          @ [ClassListRemove [lightClass cfg, darkClass cfg, systemClass cfg],
             ClassListAdd (applied_class cfg eff), SetItem (storageKey cfg) t]
          @ (if disableTransition cfg then [GetComputedStyle, ClassListRemove [''no-transitions'']] else [])"
  by (auto simp: sync_effect_def prims applied_class_def mem_token_add mem_token_remove)

lemma sync_effect_synced:
  "\<exists>w'. sync_effect cfg t eff w = Inr w' \<and> window_synced cfg t eff w' \<and> (w' = None) = (w = None)"
proof (cases w)
  case None
  then show ?thesis by (simp add: sync_effect_None window_synced_def)
next
  case (Some b)
  obtain b' where r: "sync_effect cfg t eff (Some b) = Inr (Some b')"
    and st: "localStorage b' = (localStorage b)(storageKey cfg \<mapsto> t)"
    and cl: "\<forall>x. x \<in> set (classList b') \<longleftrightarrow>
            \<not> (disableTransition cfg \<and> x = ''no-transitions'')
            \<and> (x = applied_class cfg eff
               \<or> (x \<in> set (classList b) \<and> x \<notin> {lightClass cfg, darkClass cfg, systemClass cfg}))"
    using sync_effect_Some [of cfg t eff b] by blast
  have "window_synced cfg t eff (Some b')"
    using st cl by (auto simp: window_synced_def theme_class_synced_def)
  with r Some show ?thesis by simp
qed

lemma render_fields [simp]:
  "themeState (render props p) = themeState p"
  "systemThemeState (render props p) = systemThemeState p"
  "handleChange_registered (render props p) = handleChange_registered p"
  by (simp_all add: render_def Let_def)

lemma render_provided:
  assumes "cache_ok (props_config props) p"
  shows "provided (render props p) = fresh_value (props_config props) (themeState p) (systemThemeState p)"
    and "cache_ok (props_config props) (render props p)"
  using assms by (cases "memoDeps p"; auto simp: render_def Let_def useMemo_def cache_ok_def)+

lemma rerender_in_sync:
  assumes "cache_ok (props_config props) p"
  shows "\<exists>w'. rerender props (p, w) = Inr (render props p, w')
           \<and> in_sync props (render props p, w') \<and> (w' = None) = (w = None)"
proof -
  let ?cfg = "props_config props"
  obtain w' where s: "sync_effect ?cfg (themeState p) (effectiveTheme_of (themeState p) (systemThemeState p)) w = Inr w'"
    and ws: "window_synced ?cfg (themeState p) (effectiveTheme_of (themeState p) (systemThemeState p)) w'"
    and n: "(w' = None) = (w = None)"
    using sync_effect_synced by blast
  have "rerender props (p, w) = Inr (render props p, w')"
    using s by (simp add: rerender_def Let_def)
  moreover have "in_sync props (render props p, w')"
    using ws render_provided [OF assms] by (simp add: in_sync_def)
  ultimately show ?thesis using n by blast
qed

lemma setThemeState_in_sync:
  assumes "in_sync props s"
  shows "\<exists>s'. setThemeState props t s = Inr s' \<and> in_sync props s' \<and> themeState (fst s') = t
           \<and> systemThemeState (fst s') = systemThemeState (fst s)
           \<and> (snd s' = None) = (snd s = None)"
proof (cases "t = themeState (fst s)")
  case True
  then show ?thesis using assms by (simp add: setThemeState_def)
next
  case False
  have "cache_ok (props_config props) ((fst s)\<lparr> themeState := t \<rparr>)"
    using assms by (simp add: in_sync_def cache_ok_def)
  from rerender_in_sync [OF this, of "snd s"] False show ?thesis
    by (auto simp: setThemeState_def)
qed

lemma setSystemTheme_in_sync:
  assumes "in_sync props s" "followSystemTheme (props_config props)" "sys = ''light'' \<or> sys = ''dark''"
  shows "\<exists>s'. setSystemTheme props sys s = Inr s' \<and> in_sync props s' \<and> themeState (fst s') = themeState (fst s)
           \<and> systemThemeState (fst s') = sys
           \<and> (snd s' = None) = (snd s = None)"
proof (cases "sys = systemThemeState (fst s)")
  case True
  then show ?thesis using assms by (simp add: setSystemTheme_def)
next
  case False
  have "cache_ok (props_config props) ((fst s)\<lparr> systemThemeState := sys \<rparr>)"
    using assms by (auto simp: in_sync_def cache_ok_def)
  from rerender_in_sync [OF this, of "snd s"] False show ?thesis
    by (auto simp: setSystemTheme_def)
qed

lemma window_synced_prefersDark:
  "window_synced cfg t eff (Some (b\<lparr> prefersDark := d \<rparr>)) = window_synced cfg t eff (Some b)"
  by (simp add: window_synced_def)

lemma os_change_in_sync:
  assumes "in_sync props s"
  shows "\<exists>s'. os_change props d s = Inr s' \<and> in_sync props s' \<and> themeState (fst s') = themeState (fst s)
           \<and> (followSystemTheme (props_config props) \<or> fst s' = fst s)
           \<and> (snd s' = None) = (snd s = None)"
proof (cases "snd s")
  case None
  then show ?thesis using assms by (simp add: os_change_def)
next
  case (Some b)
  show ?thesis
  proof (cases "prefersDark b = d")
    case True
    then show ?thesis using assms Some by (simp add: os_change_def)
  next
    case flip: False
    let ?s1 = "(fst s, Some (b\<lparr> prefersDark := d \<rparr>))"
    have s1: "in_sync props ?s1"
      using assms Some by (simp add: in_sync_def window_synced_prefersDark)
    show ?thesis
    proof (cases "handleChange_registered (fst s)")
      case True
      then have fo: "followSystemTheme (props_config props)"
        using assms by (auto simp: in_sync_def cache_ok_def)
      have "matches_theme d = ''light'' \<or> matches_theme d = ''dark''"
        by (simp add: matches_theme_def)
      from setSystemTheme_in_sync [OF s1 fo this] True flip Some fo show ?thesis
        by (auto simp: os_change_def)
    next
      case False
      then show ?thesis using s1 flip Some by (simp add: os_change_def)
    qed
  qed
qed

lemma react_in_sync:
  assumes "in_sync props s"
  shows "\<exists>s'. react props ev s = Inr s' \<and> in_sync props s' \<and> (snd s' = None) = (snd s = None)"
proof (cases ev)
  case (SetTheme t)
  then show ?thesis using setThemeState_in_sync [OF assms, of t] by auto
next
  case ToggleTheme
  then show ?thesis using setThemeState_in_sync [OF assms, of "toggleTheme (themeState (fst s))"] by auto
next
  case (OsChange d)
  then show ?thesis using os_change_in_sync [OF assms, of d] by auto
qed

lemma run_in_sync:
  "in_sync props s \<Longrightarrow>
     \<exists>s'. run props evs s = Inr s' \<and> in_sync props s' \<and> (snd s' = None) = (snd s = None)"
proof (induction evs arbitrary: s)
  case Nil
  have "run props [] s = Inr s" by simp
  with Nil show ?case by (intro exI [of _ s]) simp
next
  case (Cons ev evs)
  have "\<exists>s'. react props ev s = Inr s' \<and> in_sync props s' \<and> (snd s' = None) = (snd s = None)"
    by (rule react_in_sync [OF Cons.prems])
  then obtain s1 where
    r: "react props ev s = Inr s1" and i: "in_sync props s1" and n: "(snd s1 = None) = (snd s = None)"
    by (elim exE conjE)
  have "\<exists>s'. run props evs s1 = Inr s' \<and> in_sync props s' \<and> (snd s' = None) = (snd s1 = None)"
    by (rule Cons.IH [OF i])
  then obtain s2 where
    r2: "run props evs s1 = Inr s2" and i2: "in_sync props s2" and n2: "(snd s2 = None) = (snd s1 = None)"
    by (elim exE conjE)
  have "run props (ev # evs) s = Inr s2" using r r2 by simp
  moreover have "(snd s2 = None) = (snd s = None)" using n n2 by simp
  ultimately show ?case using i2 by (intro exI [of _ s2]) simp
qed

lemma run_append:
  "run props (evs @ evs') s = andThen (run props evs s) (run props evs')"
proof (induction evs arbitrary: s)
  case Nil
  then show ?case by simp
next
  case (Cons ev evs)
  then show ?case by (cases "react props ev s") simp_all
qed

lemma initial_theme_total:
  "initial_theme cfg dflt w = Inr (case w of None \<Rightarrow> dflt | Some b \<Rightarrow> stored_or (localStorage b (storageKey cfg)) dflt)"
  by (cases w) (simp_all add: initial_theme_def localStorage_getItem_def)

lemma observer_effect_total:
  "observer_effect cfg w =
     Inr (case w of None \<Rightarrow> (None, False)
          | Some b \<Rightarrow> if followSystemTheme cfg then (Some (matches_theme (prefersDark b)), True) else (None, False))"
  by (cases w) (simp_all add: observer_effect_def matchMedia_matches_def)

lemma first_render_in_sync:
  assumes "window_synced (props_config props) t (effectiveTheme_of t ''light'') w"
    and "followSystemTheme (props_config props) \<or> \<not> reg"
  shows "in_sync props ((first_render props t)\<lparr> handleChange_registered := reg \<rparr>, w)"
  using assms by (auto simp: in_sync_def cache_ok_def first_render_def)

lemma mount_in_sync:
  "\<exists>s. mount props w = Inr s \<and> in_sync props s \<and> (snd s = None) = (w = None)
     \<and> themeState (fst s) = (case w of None \<Rightarrow> defaultTheme props
          | Some b \<Rightarrow> stored_or (localStorage b (storageKey (props_config props))) (defaultTheme props))"
proof -
  let ?cfg = "props_config props"
  let ?t = "case w of None \<Rightarrow> defaultTheme props
          | Some b \<Rightarrow> stored_or (localStorage b (storageKey ?cfg)) (defaultTheme props)"
  obtain w' where s: "sync_effect ?cfg ?t (effectiveTheme_of ?t ''light'') w = Inr w'"
    and ws: "window_synced ?cfg ?t (effectiveTheme_of ?t ''light'') w'"
    and n: "(w' = None) = (w = None)"
    using sync_effect_synced by blast
  show ?thesis
  proof (cases "w \<noteq> None \<and> followSystemTheme ?cfg")
    case True
    then obtain b where b: "w = Some b" by auto
    let ?p = "(first_render props ?t)\<lparr> handleChange_registered := True \<rparr>"
    have i: "in_sync props (?p, w')"
      using first_render_in_sync [OF ws, of True] True by simp
    have v: "matches_theme (prefersDark b) = ''light'' \<or> matches_theme (prefersDark b) = ''dark''"
      by (simp add: matches_theme_def)
    have f: "followSystemTheme ?cfg" using True by simp
    from setSystemTheme_in_sync [OF i f v] obtain s' where
      "setSystemTheme props (matches_theme (prefersDark b)) (?p, w') = Inr s'"
      "in_sync props s'" "themeState (fst s') = themeState ?p" "(snd s' = None) = (w' = None)"
      by auto
    then show ?thesis using s n b f
      by (simp add: mount_def initial_theme_total observer_effect_total first_render_def)
  next
    case False
    let ?p = "(first_render props ?t)\<lparr> handleChange_registered := False \<rparr>"
    have i: "in_sync props (?p, w')"
      using first_render_in_sync [OF ws, of False] by simp
    have "mount props w = Inr (?p, w')"
      using s False by (cases w) (auto simp: mount_def initial_theme_total observer_effect_total)
    then show ?thesis using i n by (simp add: first_render_def)
  qed
qed

lemma session_in_sync:
  "\<exists>s. session props w evs = Inr s \<and> in_sync props s \<and> (snd s = None) = (w = None)"
proof -
  obtain s0 where m: "mount props w = Inr s0" and i: "in_sync props s0" and n: "(snd s0 = None) = (w = None)"
    using mount_in_sync [of props w] by (elim exE conjE)
  from run_in_sync [OF i, of evs] obtain s where
    r: "run props evs s0 = Inr s" and i2: "in_sync props s" and n2: "(snd s = None) = (snd s0 = None)"
    by (elim exE conjE)
  have "session props w evs = Inr s" using m r by (simp add: session_def)
  moreover have "(snd s = None) = (w = None)" using n n2 by simp
  ultimately show ?thesis using i2 by (intro exI [of _ s]) simp
qed

text \<open>What the setter of the theme selects, whether or not it renders.\<close>

lemma setThemeState_selects:
  "\<exists>s'. setThemeState props t (p, w) = Inr s' \<and> themeState (fst s') = t
       \<and> systemThemeState (fst s') = systemThemeState p"
proof (cases "t = themeState p")
  case True
  then show ?thesis by (simp add: setThemeState_def)
next
  case False
  let ?p = "p\<lparr> themeState := t \<rparr>"
  obtain w' where "sync_effect (props_config props) t (effectiveTheme_of t (systemThemeState p)) w = Inr w'"
    using sync_effect_synced [of "props_config props" t "effectiveTheme_of t (systemThemeState p)" w]
    by (elim exE conjE)
  then have "setThemeState props t (p, w) = Inr (render props ?p, w')"
    using False by (simp add: setThemeState_def rerender_def Let_def)
  then show ?thesis by simp
qed

lemma react_toggle:
  "\<exists>s'. react props ToggleTheme s = Inr s'
       \<and> themeState (fst s') = toggleTheme (themeState (fst s))
       \<and> systemThemeState (fst s') = systemThemeState (fst s)"
  using setThemeState_selects [of props "toggleTheme (themeState (fst s))" "fst s" "snd s"]
  by simp

lemma toggle_thrice:
  "\<exists>s'. run props [ToggleTheme, ToggleTheme, ToggleTheme] s = Inr s'
       \<and> themeState (fst s') = toggleTheme (toggleTheme (toggleTheme (themeState (fst s))))"
proof -
  obtain s1 where 1: "react props ToggleTheme s = Inr s1"
    and t1: "themeState (fst s1) = toggleTheme (themeState (fst s))"
    using react_toggle [of props s] by (elim exE conjE)
  obtain s2 where 2: "react props ToggleTheme s1 = Inr s2"
    and t2: "themeState (fst s2) = toggleTheme (themeState (fst s1))"
    using react_toggle [of props s1] by (elim exE conjE)
  obtain s3 where 3: "react props ToggleTheme s2 = Inr s3"
    and t3: "themeState (fst s3) = toggleTheme (themeState (fst s2))"
    using react_toggle [of props s2] by (elim exE conjE)
  have "run props [ToggleTheme, ToggleTheme, ToggleTheme] s = Inr s3"
    using 1 2 3 by simp
  moreover have "themeState (fst s3) = toggleTheme (toggleTheme (toggleTheme (themeState (fst s))))"
    using t1 t2 t3 by simp
  ultimately show ?thesis by (intro exI [of _ s3] conjI)
qed

section \<open>The claims\<close>

text \<open>
  Claim C4. \<^verbatim>\<open>toggleTheme\<close> is the fixed cycle light, dark, system, light: three
  applications lead from each of the three themes back to it. The theme a provider
  selects after \<^verbatim>\<open>toggleTheme()\<close> is the updater applied to its selected theme, whatever
  its system theme \<open>sys\<close> is, and after three calls it is the updater applied three
  times.
\<close>

theorem toggleTheme_cycle:
  "toggleTheme ''light'' = ''dark'' \<and> toggleTheme ''dark'' = ''system''
   \<and> toggleTheme ''system'' = ''light''
   \<and> toggleTheme (toggleTheme (toggleTheme ''light'')) = ''light''
   \<and> toggleTheme (toggleTheme (toggleTheme ''dark'')) = ''dark''
   \<and> toggleTheme (toggleTheme (toggleTheme ''system'')) = ''system''
   \<and> (\<exists>s'. react props ToggleTheme (p\<lparr> systemThemeState := sys \<rparr>, w) = Inr s'
          \<and> themeState (fst s') = toggleTheme (themeState p))
   \<and> (\<exists>s'. run props [ToggleTheme, ToggleTheme, ToggleTheme] (p, w) = Inr s'
          \<and> themeState (fst s') = toggleTheme (toggleTheme (toggleTheme (themeState p))))"
proof -
  have a: "\<exists>s'. react props ToggleTheme (p\<lparr> systemThemeState := sys \<rparr>, w) = Inr s'
          \<and> themeState (fst s') = toggleTheme (themeState p)"
    using setThemeState_selects [of props "toggleTheme (themeState p)" "p\<lparr> systemThemeState := sys \<rparr>" w]
    by auto
  have b: "\<exists>s'. run props [ToggleTheme, ToggleTheme, ToggleTheme] (p, w) = Inr s'
          \<and> themeState (fst s') = toggleTheme (toggleTheme (toggleTheme (themeState p)))"
    using toggle_thrice [of props "(p, w)"] by simp
  have c: "toggleTheme ''light'' = ''dark''" "toggleTheme ''dark'' = ''system''"
    "toggleTheme ''system'' = ''light''"
    by (simp_all add: toggleTheme_def)
  have d: "toggleTheme (toggleTheme (toggleTheme ''light'')) = ''light''"
    "toggleTheme (toggleTheme (toggleTheme ''dark'')) = ''dark''"
    "toggleTheme (toggleTheme (toggleTheme ''system'')) = ''system''"
    by (simp_all add: c)
  show ?thesis by (intro conjI) (fact a b c d)+
qed

text \<open>
  Claim C10. The updater of \<^verbatim>\<open>toggleTheme\<close> sends every string other than
  \<^verbatim>\<open>'light'\<close> and \<^verbatim>\<open>'dark'\<close> to \<^verbatim>\<open>'light'\<close>: \<^verbatim>\<open>'system'\<close>, and any string
  that is no theme at all. A provider whose selected theme is such a string handles
  \<^verbatim>\<open>toggleTheme()\<close> without an error and selects \<^verbatim>\<open>'light'\<close>.
\<close>

theorem toggleTheme_fallback:
  assumes "t \<noteq> ''light''" and "t \<noteq> ''dark''"
  shows "toggleTheme t = ''light''
     \<and> (\<exists>s'. react props ToggleTheme (p\<lparr> themeState := t \<rparr>, w) = Inr s'
            \<and> themeState (fst s') = ''light'')"
proof -
  have t: "toggleTheme t = ''light''" using assms by (simp add: toggleTheme_def)
  have "\<exists>s'. react props ToggleTheme (p\<lparr> themeState := t \<rparr>, w) = Inr s'
            \<and> themeState (fst s') = ''light''"
    using setThemeState_selects [of props "''light''" "p\<lparr> themeState := t \<rparr>" w] t
    by auto
  with t show ?thesis by simp
qed

text \<open>The two hypotheses hold of \<^verbatim>\<open>'blue'\<close> and of \<^verbatim>\<open>'system'\<close>.\<close>

theorem toggleTheme_fallback_witness:
  "''blue'' \<noteq> ''light'' \<and> ''blue'' \<noteq> ''dark'' \<and> toggleTheme ''blue'' = ''light''
   \<and> ''system'' \<noteq> ''light'' \<and> ''system'' \<noteq> ''dark'' \<and> toggleTheme ''system'' = ''light''
   \<and> (\<exists>s'. react default_props ToggleTheme
               ((first_render default_props ''dark'')\<lparr> themeState := ''blue'' \<rparr>, Some browser0) = Inr s'
            \<and> themeState (fst s') = ''light'')"
proof -
  have a: "''blue'' \<noteq> ''light''" and b: "''blue'' \<noteq> ''dark''" by simp_all
  have c: "''system'' \<noteq> ''light''" and d: "''system'' \<noteq> ''dark''" by simp_all
  note blue = toggleTheme_fallback [OF a b, of default_props "first_render default_props ''dark''" "Some browser0"]
  note sys = toggleTheme_fallback [OF c d, of default_props "first_render default_props ''dark''" "Some browser0"]
  have e: "toggleTheme ''blue'' = ''light''" using blue by (rule conjunct1)
  have f: "toggleTheme ''system'' = ''light''" using sys by (rule conjunct1)
  have g: "\<exists>s'. react default_props ToggleTheme
               ((first_render default_props ''dark'')\<lparr> themeState := ''blue'' \<rparr>, Some browser0) = Inr s'
            \<and> themeState (fst s') = ''light''"
    using blue by (rule conjunct2)
  show ?thesis by (intro conjI) (fact a b c d e f g)+
qed

text \<open>
  Claim C9. With no enclosing provider \<^verbatim>\<open>useTheme\<close> throws its error, which names the
  misuse; inside a provider it returns the value that provider gives, and no error.
\<close>

theorem useTheme_outside_provider:
  "useTheme [] = Inl (Error ''useTheme must be used within ThemeProvider'')
   \<and> useTheme (provided p # outer) = Inr (provided p)"
  by (simp add: useTheme_def useContext_def)

text \<open>
  Claim C8. Where \<^verbatim>\<open>window\<close> is undefined the initializer returns the default theme
  without reading the storage, both effects return without doing anything, and the
  mount and every session after it end without an error: no path evaluates one of the
  unbound names.
\<close>

theorem no_window_no_failure:
  "initial_theme (props_config props) (defaultTheme props) None = Inr (defaultTheme props)
   \<and> observer_effect (props_config props) None = Inr (None, False)
   \<and> sync_effect (props_config props) t eff None = Inr None
   \<and> mount props None = Inr (first_render props (defaultTheme props), None)
   \<and> (\<exists>p. session props None evs = Inr (p, None))"
proof -
  have m: "mount props None = Inr (first_render props (defaultTheme props), None)"
    by (simp add: mount_def initial_theme_def observer_effect_def sync_effect_def first_render_def)
  obtain s where s: "session props None evs = Inr s" and n: "(snd s = None) = (None = (None::window))"
    using session_in_sync [of props None evs] by (elim exE conjE)
  then have "session props None evs = Inr (fst s, None)" by (cases s) simp
  then have "\<exists>p. session props None evs = Inr (p, None)" by (rule exI)
  with m show ?thesis
    by (simp add: initial_theme_def observer_effect_def sync_effect_def)
qed

text \<open>The value a settled provider gives to its consumers.\<close>

lemma in_sync_provided:
  assumes "in_sync props s"
  shows "theme (provided (fst s)) = themeState (fst s)"
    and "systemTheme (provided (fst s)) = systemThemeState (fst s)"
    and "effectiveTheme (provided (fst s)) = effectiveTheme_of (themeState (fst s)) (systemThemeState (fst s))"
    and "config (provided (fst s)) = props_config props"
  using assms by (simp_all add: in_sync_def fresh_value_def)

text \<open>
  Claim C3. After the mount and any sequence of \<^verbatim>\<open>setTheme\<close> calls, \<^verbatim>\<open>toggleTheme\<close>
  calls and changes of the operating system's preference, the context value shows the
  provider's selected theme and system theme, and its effective theme is the system
  theme when the selected theme is \<^verbatim>\<open>'system'\<close> and the selected theme otherwise: the
  memoized value never lags behind the two states it is computed from.
\<close>

theorem effectiveTheme_derived:
  "\<exists>p w'. session props w evs = Inr (p, w')
     \<and> theme (provided p) = themeState p
     \<and> systemTheme (provided p) = systemThemeState p
     \<and> effectiveTheme (provided p) =
         (if theme (provided p) = ''system'' then systemTheme (provided p) else theme (provided p))"
proof -
  obtain s where r: "session props w evs = Inr s" and i: "in_sync props s"
    using session_in_sync [of props w evs] by (elim exE conjE)
  have "session props w evs = Inr (fst s, snd s)" using r by simp
  moreover note in_sync_provided(1,2) [OF i]
  moreover have "effectiveTheme (provided (fst s)) =
         (if theme (provided (fst s)) = ''system'' then systemTheme (provided (fst s))
          else theme (provided (fst s)))"
    using in_sync_provided [OF i] by (simp add: effectiveTheme_of_def)
  ultimately show ?thesis by (intro exI [of _ "fst s"] exI [of _ "snd s"] conjI)
qed

text \<open>A session with one more event.\<close>

lemma session_snoc:
  "session props w (evs @ [ev]) = andThen (session props w evs) (react props ev)"
proof (cases "mount props w")
  case (Inl e)
  then show ?thesis by (simp add: session_def)
next
  case (Inr s0)
  show ?thesis
  proof (cases "run props evs s0")
    case (Inl e)
    then show ?thesis using Inr by (simp add: session_def run_append)
  next
    case r: (Inr s)
    have "run props [ev] s = react props ev s"
      by (cases "react props ev s") simp_all
    then show ?thesis using Inr r by (simp add: session_def run_append)
  qed
qed

text \<open>
  Claim C7. In a browser, after any session that ends with \<^verbatim>\<open>setTheme(m)\<close> the entry
  of the storage under the configured key is \<open>m\<close> itself, the selected theme, also when
  \<open>m\<close> is \<^verbatim>\<open>'system'\<close> and the effective theme is another string.
\<close>

theorem setTheme_persisted:
  "\<exists>p b'. session props (Some b) (evs @ [SetTheme m]) = Inr (p, Some b')
     \<and> themeState p = m
     \<and> localStorage b' (storageKey (props_config props)) = Some m"
proof -
  obtain s where r: "session props (Some b) evs = Inr s" and i: "in_sync props s"
    and n: "(snd s = None) = (Some b = None)"
    using session_in_sync [of props "Some b" evs] by (elim exE conjE)
  obtain s' where r': "setThemeState props m s = Inr s'" and i': "in_sync props s'"
    and t: "themeState (fst s') = m" and n': "(snd s' = None) = (snd s = None)"
    using setThemeState_in_sync [OF i, of m] by (elim exE conjE)
  from n n' obtain b' where b': "snd s' = Some b'" by auto
  have "session props (Some b) (evs @ [SetTheme m]) = Inr (fst s', Some b')"
    using r r' b' by (simp add: session_snoc flip: b')
  moreover have "localStorage b' (storageKey (props_config props)) = Some m"
    using i' b' t by (simp add: in_sync_def window_synced_def)
  ultimately show ?thesis using t by (intro exI [of _ "fst s'"] exI [of _ b'] conjI)
qed

text \<open>
  Claim C6. With \<^verbatim>\<open>followSystemTheme\<close> off, after the mount and any sequence of events
  the system theme is still \<^verbatim>\<open>'light'\<close>, a selected theme \<^verbatim>\<open>'system'\<close> is shown as
  \<^verbatim>\<open>'light'\<close>, and a further change of the operating system's preference changes
  neither the system theme nor the effective theme.
\<close>

theorem no_follow_stays_light:
  assumes "\<not> followSystemTheme (props_config props)"
  shows "\<exists>p w'. session props w evs = Inr (p, w')
     \<and> systemThemeState p = ''light''
     \<and> systemTheme (provided p) = ''light''
     \<and> effectiveTheme (provided p) = (if themeState p = ''system'' then ''light'' else themeState p)
     \<and> (\<exists>p2 w2. react props (OsChange d) (p, w') = Inr (p2, w2)
            \<and> systemTheme (provided p2) = ''light''
            \<and> effectiveTheme (provided p2) = effectiveTheme (provided p))"
proof -
  obtain s where r: "session props w evs = Inr s" and i: "in_sync props s"
    using session_in_sync [of props w evs] by (elim exE conjE)
  have l: "systemThemeState (fst s) = ''light''"
    using i assms by (simp add: in_sync_def cache_ok_def)
  obtain s2 where r2: "os_change props d s = Inr s2"
    and same: "followSystemTheme (props_config props) \<or> fst s2 = fst s"
    using os_change_in_sync [OF i, of d] by (elim exE conjE)
  from same assms have p2: "fst s2 = fst s" by simp
  have a: "session props w evs = Inr (fst s, snd s)" using r by simp
  have b: "systemTheme (provided (fst s)) = ''light''"
    using in_sync_provided(2) [OF i] l by simp
  have c: "effectiveTheme (provided (fst s)) =
      (if themeState (fst s) = ''system'' then ''light'' else themeState (fst s))"
    using in_sync_provided(3) [OF i] l by (simp add: effectiveTheme_of_def)
  have rr: "react props (OsChange d) (fst s, snd s) = Inr (fst s2, snd s2)" using r2 by simp
  have e: "\<exists>p2 w2. react props (OsChange d) (fst s, snd s) = Inr (p2, w2)
            \<and> systemTheme (provided p2) = ''light''
            \<and> effectiveTheme (provided p2) = effectiveTheme (provided (fst s))"
  proof (intro exI [of _ "fst s2"] exI [of _ "snd s2"] conjI)
    show "react props (OsChange d) (fst s, snd s) = Inr (fst s2, snd s2)" by (rule rr)
    show "systemTheme (provided (fst s2)) = ''light''" using p2 b by simp
    show "effectiveTheme (provided (fst s2)) = effectiveTheme (provided (fst s))" using p2 by simp
  qed
  show ?thesis
    by (rule exI [of _ "fst s"], rule exI [of _ "snd s"], intro conjI) (fact a l b c e)+
qed

text \<open>The hypothesis holds of a configuration that switches the flag off.\<close>

lemma nofollow_config: "\<not> followSystemTheme (props_config props_nofollow)"
  by (simp add: props_nofollow_def props_config_def finalConfig_def or_default_def empty_config_def)

theorem no_follow_stays_light_witness:
  "\<not> followSystemTheme (props_config props_nofollow)
   \<and> (\<exists>p w'. session props_nofollow (Some (browser0\<lparr> prefersDark := True \<rparr>)) [SetTheme ''system''] = Inr (p, w')
     \<and> systemThemeState p = ''light''
     \<and> systemTheme (provided p) = ''light''
     \<and> effectiveTheme (provided p) = (if themeState p = ''system'' then ''light'' else themeState p)
     \<and> (\<exists>p2 w2. react props_nofollow (OsChange False) (p, w') = Inr (p2, w2)
            \<and> systemTheme (provided p2) = ''light''
            \<and> effectiveTheme (provided p2) = effectiveTheme (provided p)))"
  using nofollow_config no_follow_stays_light [OF nofollow_config]
  by (intro conjI)

text \<open>Evaluating the model on concrete inputs.\<close>

lemmas config_defs = props_config_def finalConfig_def or_default_def empty_config_def defaultTheme_def

lemmas model_defs = session_def mount_def initial_theme_def localStorage_getItem_def stored_or_def
  observer_effect_def matchMedia_matches_def matches_theme_def sync_effect_def prims
  token_add_def token_remove_def effectiveTheme_of_def setSystemTheme_def setThemeState_def
  rerender_def render_def useMemo_def first_render_def fresh_value_def

lemma default_config:
  "props_config default_props =
     \<lparr> lightClass = ''light'', darkClass = ''dark'', systemClass = ''system'',
       storageKey = ''theme'', disableTransition = False, followSystemTheme = True \<rparr>"
  by (simp add: config_defs default_props_def)

text \<open>
  Two scenarios of the specification, run on the model: a provider with the default
  theme \<^verbatim>\<open>'system'\<close> under an operating system that prefers dark, and one with the
  default theme \<^verbatim>\<open>'dark'\<close> after \<^verbatim>\<open>setTheme('light')\<close> and \<^verbatim>\<open>toggleTheme()\<close>.
\<close>

lemma scenario_system_dark:
  "root_classes (session (default_props\<lparr> defaultTheme_prop := Some ''system'' \<rparr>)
      (Some (browser0\<lparr> prefersDark := True \<rparr>)) []) = Some [''dark'']
   \<and> stored_under ''theme'' (session (default_props\<lparr> defaultTheme_prop := Some ''system'' \<rparr>)
      (Some (browser0\<lparr> prefersDark := True \<rparr>)) []) = Some ''system''"
  by (simp add: root_classes_def stored_under_def model_defs Let_def browser0_def config_defs
      default_props_def)

lemma scenario_set_then_toggle:
  "selected (session (default_props\<lparr> defaultTheme_prop := Some ''dark'' \<rparr>) (Some browser0)
      [SetTheme ''light'', ToggleTheme]) = Some ''dark''
   \<and> root_classes (session (default_props\<lparr> defaultTheme_prop := Some ''dark'' \<rparr>) (Some browser0)
      [SetTheme ''light'', ToggleTheme]) = Some [''dark'']"
  by (simp add: selected_def root_classes_def model_defs Let_def toggleTheme_def browser0_def
      config_defs default_props_def)

text \<open>
  Claim C1, as stated, fails: the claim has every stored value that is not one of the
  three themes replaced by the default. With \<^verbatim>\<open>'blue'\<close> stored under the default key
  and the default theme \<^verbatim>\<open>'light'\<close>, the initializer returns \<^verbatim>\<open>'blue'\<close>, and that is
  the theme the mounted provider selects.
\<close>

theorem initial_theme_unvalidated_counterexample:
  "localStorage browser_blue (storageKey (props_config default_props)) = Some ''blue''
   \<and> \<not> is_Theme ''blue''
   \<and> defaultTheme default_props = ''light''
   \<and> initial_theme (props_config default_props) (defaultTheme default_props) (Some browser_blue)
        = Inr ''blue''
   \<and> selected (mount default_props (Some browser_blue)) = Some ''blue''"
  by (simp add: is_Theme_def selected_def model_defs browser_blue_def browser0_def
      config_defs default_props_def)

text \<open>
  Claim C2, as stated, fails. With the default configuration and \<^verbatim>\<open>'blue'\<close> in the
  storage the mount leaves the system class alone on the document root, neither the
  light class nor the dark class. With one name configured for both the light and the
  dark class, that name is on the root: both classes are present. With the name of the
  light class, or of the dark class, configured for the system class as well, the
  system class is on the root when that theme is applied. With the suppression on and
  the light class, or the dark class, named \<^verbatim>\<open>'no-transitions'\<close>, the class the effect
  has just applied goes with the marker, and the root carries neither.
\<close>

theorem one_theme_class_counterexample:
  "root_classes (session default_props (Some browser_blue) []) = Some [''system'']
   \<and> \<not> one_theme_class (props_config default_props) [''system'']
   \<and> root_classes (session props_same_class (Some browser0) []) = Some [''theme'']
   \<and> \<not> one_theme_class (props_config props_same_class) [''theme'']
   \<and> root_classes (session props_system_light (Some browser0) []) = Some [''light'']
   \<and> \<not> one_theme_class (props_config props_system_light) [''light'']
   \<and> root_classes (session props_system_dark (Some browser0) []) = Some [''dark'']
   \<and> \<not> one_theme_class (props_config props_system_dark) [''dark'']
   \<and> root_classes (session props_marker_light (Some browser0) []) = Some []
   \<and> \<not> one_theme_class (props_config props_marker_light) []
   \<and> root_classes (session props_marker_dark (Some browser0) []) = Some []
   \<and> \<not> one_theme_class (props_config props_marker_dark) []"
proof -
  note ev = root_classes_def one_theme_class_def model_defs browser0_def config_defs
  have blue: "root_classes (session default_props (Some browser_blue) []) = Some [''system'']"
    "\<not> one_theme_class (props_config default_props) [''system'']"
    by (simp_all add: ev browser_blue_def default_props_def)
  have same: "root_classes (session props_same_class (Some browser0) []) = Some [''theme'']"
    "\<not> one_theme_class (props_config props_same_class) [''theme'']"
    by (simp_all add: ev props_same_class_def)
  have sl: "root_classes (session props_system_light (Some browser0) []) = Some [''light'']"
    "\<not> one_theme_class (props_config props_system_light) [''light'']"
    by (simp_all add: ev props_system_light_def)
  have sd: "root_classes (session props_system_dark (Some browser0) []) = Some [''dark'']"
    "\<not> one_theme_class (props_config props_system_dark) [''dark'']"
    by (simp_all add: ev props_system_dark_def)
  have ml: "root_classes (session props_marker_light (Some browser0) []) = Some []"
    "\<not> one_theme_class (props_config props_marker_light) []"
    by (simp_all add: ev props_marker_light_def)
  have md: "root_classes (session props_marker_dark (Some browser0) []) = Some []"
    "\<not> one_theme_class (props_config props_marker_dark) []"
    by (simp_all add: ev props_marker_dark_def)
  show ?thesis by (intro conjI) (fact blue same sl sd ml md)+
qed


text \<open>The theme a provider selects at its mount in a browser.\<close>

lemma mount_selected:
  "selected (mount props (Some b))
     = Some (stored_or (localStorage b (storageKey (props_config props))) (defaultTheme props))"
proof -
  obtain s where m: "mount props (Some b) = Inr s"
    and t: "themeState (fst s) = (case Some b of None \<Rightarrow> defaultTheme props
          | Some b \<Rightarrow> stored_or (localStorage b (storageKey (props_config props))) (defaultTheme props))"
    using mount_in_sync [of props "Some b"] by (elim exE conjE)
  then show ?thesis by (simp add: selected_def)
qed

text \<open>
  Claim C1, amended. In a browser the initial theme is the string stored under the
  configured key whenever one is stored and it is not the empty string, whether or not
  it is one of the three themes; it is the default theme of the caller when nothing is
  stored or the empty string is; and that default is \<^verbatim>\<open>'light'\<close> when the caller gave
  none.
\<close>

theorem initial_theme_stored_or_default:
  "(localStorage b (storageKey (props_config props)) = Some s \<and> s \<noteq> []
      \<longrightarrow> initial_theme (props_config props) (defaultTheme props) (Some b) = Inr s
        \<and> selected (mount props (Some b)) = Some s)
   \<and> (localStorage b (storageKey (props_config props)) = None
       \<or> localStorage b (storageKey (props_config props)) = Some []
      \<longrightarrow> initial_theme (props_config props) (defaultTheme props) (Some b) = Inr (defaultTheme props)
        \<and> selected (mount props (Some b)) = Some (defaultTheme props))
   \<and> (defaultTheme_prop props = None \<longrightarrow> defaultTheme props = ''light'')"
  by (auto simp: mount_selected initial_theme_total stored_or_def defaultTheme_def or_default_def)

text \<open>
  The three hypotheses at concrete inputs: \<^verbatim>\<open>'dark'\<close> stored under a key of the
  caller's, with the default \<^verbatim>\<open>'light'\<close>; an empty storage; the empty string stored.
\<close>

lemma app_config_key: "storageKey (props_config props_app) = ''app-theme''"
  by (simp add: props_app_def config_defs)

theorem initial_theme_stored_or_default_witness:
  "localStorage browser_app_dark (storageKey (props_config props_app)) = Some ''dark''
   \<and> ''dark'' \<noteq> []
   \<and> defaultTheme props_app = ''light''
   \<and> initial_theme (props_config props_app) (defaultTheme props_app) (Some browser_app_dark) = Inr ''dark''
   \<and> selected (mount props_app (Some browser_app_dark)) = Some ''dark''
   \<and> localStorage browser0 (storageKey (props_config default_props)) = None
   \<and> defaultTheme_prop default_props = None
   \<and> initial_theme (props_config default_props) (defaultTheme default_props) (Some browser0) = Inr ''light''
   \<and> selected (mount default_props (Some browser0)) = Some ''light''
   \<and> localStorage browser_empty_string (storageKey (props_config default_props)) = Some []
   \<and> selected (mount default_props (Some browser_empty_string)) = Some ''light''"
proof -
  have a: "localStorage browser_app_dark (storageKey (props_config props_app)) = Some ''dark''"
    by (simp add: app_config_key browser_app_dark_def browser0_def)
  have b: "''dark'' \<noteq> []" by simp
  have c: "defaultTheme props_app = ''light''"
    by (simp add: props_app_def defaultTheme_def or_default_def)
  have d: "localStorage browser0 (storageKey (props_config default_props)) = None"
    by (simp add: browser0_def)
  have e: "defaultTheme_prop default_props = None" by (simp add: default_props_def)
  have f: "localStorage browser_empty_string (storageKey (props_config default_props)) = Some []"
    by (simp add: default_config browser_empty_string_def browser0_def)
  note app = initial_theme_stored_or_default [of browser_app_dark props_app "''dark''"]
  note dfl = initial_theme_stored_or_default [of browser0 default_props "''dark''"]
  note emp = initial_theme_stored_or_default [of browser_empty_string default_props "''dark''"]
  have l: "defaultTheme default_props = ''light''" using dfl e by simp
  have g: "initial_theme (props_config props_app) (defaultTheme props_app) (Some browser_app_dark) = Inr ''dark''"
    "selected (mount props_app (Some browser_app_dark)) = Some ''dark''"
    using app a b by simp_all
  have h: "initial_theme (props_config default_props) (defaultTheme default_props) (Some browser0) = Inr ''light''"
    "selected (mount default_props (Some browser0)) = Some ''light''"
    using dfl d l by simp_all
  have i: "selected (mount default_props (Some browser_empty_string)) = Some ''light''"
    using emp f l by simp
  show ?thesis by (intro conjI) (fact a b c d e f g h i)+
qed

text \<open>From the invariant to the classes on the document root.\<close>

lemma default_distinct: "distinct_classes (props_config default_props)"
  by (simp add: default_config distinct_classes_def)

lemma window_synced_one_theme_class:
  assumes "distinct_classes cfg" and "window_synced cfg t eff (Some b)"
  shows "eff = ''light'' \<or> eff = ''dark'' \<Longrightarrow> one_theme_class cfg (classList b)"
    and "eff \<noteq> ''light'' \<Longrightarrow> eff \<noteq> ''dark'' \<Longrightarrow>
           lightClass cfg \<notin> set (classList b) \<and> darkClass cfg \<notin> set (classList b)
           \<and> (systemClass cfg \<in> set (classList b))
               = (\<not> (disableTransition cfg \<and> systemClass cfg = ''no-transitions''))"
proof -
  let ?cl = "classList b"
  have names: "lightClass cfg \<noteq> darkClass cfg" "lightClass cfg \<noteq> systemClass cfg"
    "darkClass cfg \<noteq> systemClass cfg"
    and marker: "\<not> (disableTransition cfg \<and> lightClass cfg = ''no-transitions'')"
      "\<not> (disableTransition cfg \<and> darkClass cfg = ''no-transitions'')"
    using assms(1) by (simp_all add: distinct_classes_def)
  have l: "(lightClass cfg \<in> set ?cl) = (lightClass cfg = applied_class cfg eff
            \<and> \<not> (disableTransition cfg \<and> lightClass cfg = ''no-transitions''))"
    and d: "(darkClass cfg \<in> set ?cl) = (darkClass cfg = applied_class cfg eff
            \<and> \<not> (disableTransition cfg \<and> darkClass cfg = ''no-transitions''))"
    and s: "(systemClass cfg \<in> set ?cl) = (systemClass cfg = applied_class cfg eff
            \<and> \<not> (disableTransition cfg \<and> systemClass cfg = ''no-transitions''))"
    using assms(2) by (simp_all add: window_synced_def theme_class_synced_def)
  show "one_theme_class cfg ?cl" if "eff = ''light'' \<or> eff = ''dark''"
  proof -
    from that consider (light) "eff = ''light''" | (dark) "eff = ''dark''" by blast
    then show ?thesis
    proof cases
      case light
      then have "applied_class cfg eff = lightClass cfg" by (simp add: applied_class_def)
      then show ?thesis using names marker l d s by (simp add: one_theme_class_def)
    next
      case dark
      then have "applied_class cfg eff = darkClass cfg" by (simp add: applied_class_def)
      then show ?thesis using names marker l d s by (simp add: one_theme_class_def)
    qed
  qed
  show "lightClass cfg \<notin> set ?cl \<and> darkClass cfg \<notin> set ?cl
           \<and> (systemClass cfg \<in> set ?cl)
               = (\<not> (disableTransition cfg \<and> systemClass cfg = ''no-transitions''))"
    if "eff \<noteq> ''light''" "eff \<noteq> ''dark''"
  proof -
    from that have "applied_class cfg eff = systemClass cfg" by (simp add: applied_class_def)
    then show ?thesis using names l d s by simp
  qed
qed

lemma effective_of_Theme:
  assumes "is_Theme t" and "sys = ''light'' \<or> sys = ''dark''"
  shows "effectiveTheme_of t sys = ''light'' \<or> effectiveTheme_of t sys = ''dark''"
  using assms by (auto simp: is_Theme_def effectiveTheme_of_def)

lemma effective_of_other:
  assumes "\<not> is_Theme t"
  shows "effectiveTheme_of t sys \<noteq> ''light''" and "effectiveTheme_of t sys \<noteq> ''dark''"
  using assms by (auto simp: is_Theme_def effectiveTheme_of_def)

text \<open>
  Claim C2, amended. Let the three configured class names be pairwise distinct and,
  if the suppression is on, let neither the light class nor the dark class be named
  \<^verbatim>\<open>'no-transitions'\<close>. Every run of the synchronization effect for a selected theme
  that is one of the three themes, with a system theme that is \<^verbatim>\<open>'light'\<close> or
  \<^verbatim>\<open>'dark'\<close>, leaves exactly one of the light class and the dark class on the document
  root, and not the system class. After the mount and any sequence of events in a
  browser the system theme is one of those two strings, and the root carries exactly
  one of the light and the dark class, and not the system class, if the selected theme
  is one of the three themes. If it is any other string the root carries neither the
  light nor the dark class, and it carries the system class (unless the suppression is
  on and that class is named \<^verbatim>\<open>'no-transitions'\<close>).
\<close>

theorem one_theme_class_of_Theme:
  assumes "distinct_classes (props_config props)"
  shows "(\<forall>t sys b. is_Theme t \<and> (sys = ''light'' \<or> sys = ''dark'') \<longrightarrow>
            (\<exists>b'. sync_effect (props_config props) t (effectiveTheme_of t sys) (Some b) = Inr (Some b')
                 \<and> one_theme_class (props_config props) (classList b')))
     \<and> (\<exists>p b'. session props (Some b0) evs = Inr (p, Some b')
           \<and> (systemThemeState p = ''light'' \<or> systemThemeState p = ''dark'')
           \<and> (is_Theme (themeState p) \<longrightarrow> one_theme_class (props_config props) (classList b'))
           \<and> (\<not> is_Theme (themeState p) \<longrightarrow>
                 lightClass (props_config props) \<notin> set (classList b')
                 \<and> darkClass (props_config props) \<notin> set (classList b')
                 \<and> (systemClass (props_config props) \<in> set (classList b'))
                     = (\<not> (disableTransition (props_config props)
                            \<and> systemClass (props_config props) = ''no-transitions''))))"
proof (intro conjI allI impI)
  fix t sys b
  assume h: "is_Theme t \<and> (sys = ''light'' \<or> sys = ''dark'')"
  let ?cfg = "props_config props"
  obtain w' where r: "sync_effect ?cfg t (effectiveTheme_of t sys) (Some b) = Inr w'"
    and ws: "window_synced ?cfg t (effectiveTheme_of t sys) w'"
    and n: "(w' = None) = (Some b = None)"
    using sync_effect_synced [of ?cfg t "effectiveTheme_of t sys" "Some b"] by (elim exE conjE)
  from n obtain b' where b': "w' = Some b'" by auto
  have "one_theme_class ?cfg (classList b')"
    using window_synced_one_theme_class(1) [OF assms ws [unfolded b']] effective_of_Theme h
    by blast
  with r b' show "\<exists>b'. sync_effect ?cfg t (effectiveTheme_of t sys) (Some b) = Inr (Some b')
                 \<and> one_theme_class ?cfg (classList b')"
    by simp
next
  let ?cfg = "props_config props"
  obtain s where r: "session props (Some b0) evs = Inr s" and i: "in_sync props s"
    and n: "(snd s = None) = (Some b0 = None)"
    using session_in_sync [of props "Some b0" evs] by (elim exE conjE)
  from n obtain b' where b': "snd s = Some b'" by auto
  let ?p = "fst s"
  have ws: "window_synced ?cfg (themeState ?p) (effectiveTheme_of (themeState ?p) (systemThemeState ?p)) (Some b')"
    using i b' by (simp add: in_sync_def)
  have sys: "systemThemeState ?p = ''light'' \<or> systemThemeState ?p = ''dark''"
    using i by (simp add: in_sync_def cache_ok_def)
  have a: "session props (Some b0) evs = Inr (?p, Some b')" using r b' by (simp flip: b')
  have c: "is_Theme (themeState ?p) \<longrightarrow> one_theme_class ?cfg (classList b')"
    using window_synced_one_theme_class(1) [OF assms ws] effective_of_Theme sys by blast
  have d: "\<not> is_Theme (themeState ?p) \<longrightarrow>
                 lightClass ?cfg \<notin> set (classList b')
                 \<and> darkClass ?cfg \<notin> set (classList b')
                 \<and> (systemClass ?cfg \<in> set (classList b'))
                     = (\<not> (disableTransition ?cfg \<and> systemClass ?cfg = ''no-transitions''))"
    using window_synced_one_theme_class(2) [OF assms ws] effective_of_other by blast
  show "\<exists>p b'. session props (Some b0) evs = Inr (p, Some b')
           \<and> (systemThemeState p = ''light'' \<or> systemThemeState p = ''dark'')
           \<and> (is_Theme (themeState p) \<longrightarrow> one_theme_class ?cfg (classList b'))
           \<and> (\<not> is_Theme (themeState p) \<longrightarrow>
                 lightClass ?cfg \<notin> set (classList b')
                 \<and> darkClass ?cfg \<notin> set (classList b')
                 \<and> (systemClass ?cfg \<in> set (classList b'))
                     = (\<not> (disableTransition ?cfg \<and> systemClass ?cfg = ''no-transitions'')))"
    by (rule exI [of _ ?p], rule exI [of _ b'], intro conjI) (fact a sys c d)+
qed


text \<open>
  The hypotheses at the default configuration: the effect run for the theme
  \<^verbatim>\<open>'system'\<close> under a dark system theme, and a session that ends in
  \<^verbatim>\<open>setTheme('dark')\<close>. They hold as well where the light class is named
  \<^verbatim>\<open>'no-transitions'\<close> with the suppression off, and where the system class is so
  named with the suppression on.
\<close>

lemma marker_light_off_distinct: "distinct_classes (props_config props_marker_light_off)"
  by (simp add: props_marker_light_off_def config_defs distinct_classes_def)

lemma marker_system_distinct: "distinct_classes (props_config props_marker_system)"
  by (simp add: props_marker_system_def config_defs distinct_classes_def)

lemma default_session_dark:
  "selected (session default_props (Some browser0) [SetTheme ''dark'']) = Some ''dark''"
  by (simp add: selected_def model_defs Let_def browser0_def config_defs default_props_def)

theorem one_theme_class_of_Theme_witness:
  "distinct_classes (props_config default_props)
   \<and> is_Theme ''system''
   \<and> (\<exists>b'. sync_effect (props_config default_props) ''system''
               (effectiveTheme_of ''system'' ''dark'') (Some browser0) = Inr (Some b')
            \<and> one_theme_class (props_config default_props) (classList b'))
   \<and> (\<exists>p b'. session default_props (Some browser0) [SetTheme ''dark''] = Inr (p, Some b')
            \<and> is_Theme (themeState p)
            \<and> one_theme_class (props_config default_props) (classList b'))
   \<and> distinct_classes (props_config props_marker_light_off)
   \<and> is_Theme ''light''
   \<and> (\<exists>b'. sync_effect (props_config props_marker_light_off) ''light''
               (effectiveTheme_of ''light'' ''dark'') (Some browser0) = Inr (Some b')
            \<and> one_theme_class (props_config props_marker_light_off) (classList b'))
   \<and> distinct_classes (props_config props_marker_system)
   \<and> (\<exists>b'. sync_effect (props_config props_marker_system) ''system''
               (effectiveTheme_of ''system'' ''dark'') (Some browser0) = Inr (Some b')
            \<and> one_theme_class (props_config props_marker_system) (classList b'))"
proof -
  note th = one_theme_class_of_Theme [OF default_distinct, of browser0 "[SetTheme ''dark'']"]
  have a: "is_Theme ''system''" by (simp add: is_Theme_def)
  have b: "\<exists>b'. sync_effect (props_config default_props) ''system''
               (effectiveTheme_of ''system'' ''dark'') (Some browser0) = Inr (Some b')
            \<and> one_theme_class (props_config default_props) (classList b')"
    using th a by blast
  obtain p b' where r: "session default_props (Some browser0) [SetTheme ''dark''] = Inr (p, Some b')"
    and i: "is_Theme (themeState p) \<longrightarrow> one_theme_class (props_config default_props) (classList b')"
    using th by blast
  have "themeState p = ''dark''" using default_session_dark r by (simp add: selected_def)
  then have t: "is_Theme (themeState p)" by (simp add: is_Theme_def)
  with i have o: "one_theme_class (props_config default_props) (classList b')" by simp
  have c: "\<exists>p b'. session default_props (Some browser0) [SetTheme ''dark''] = Inr (p, Some b')
            \<and> is_Theme (themeState p)
            \<and> one_theme_class (props_config default_props) (classList b')"
    by (rule exI [of _ p], rule exI [of _ b'], intro conjI) (fact r t o)+
  note off = one_theme_class_of_Theme [OF marker_light_off_distinct, of browser0 "[]"]
  note sys = one_theme_class_of_Theme [OF marker_system_distinct, of browser0 "[]"]
  have d: "is_Theme ''light''" by (simp add: is_Theme_def)
  have e: "\<exists>b'. sync_effect (props_config props_marker_light_off) ''light''
               (effectiveTheme_of ''light'' ''dark'') (Some browser0) = Inr (Some b')
            \<and> one_theme_class (props_config props_marker_light_off) (classList b')"
    using off d by blast
  have f: "\<exists>b'. sync_effect (props_config props_marker_system) ''system''
               (effectiveTheme_of ''system'' ''dark'') (Some browser0) = Inr (Some b')
            \<and> one_theme_class (props_config props_marker_system) (classList b')"
    using sys a by blast
  show ?thesis
    by (intro conjI)
      (fact default_distinct marker_light_off_distinct marker_system_distinct a b c d e f)+
qed

text \<open>
  A mount with the suppression on, over a root that carries a stale theme class and a
  class of the page's own: the stale class goes, the other stays, the marker is gone.
\<close>

lemma scenario_suppressed:
  "root_classes (session props_suppress
      (Some (browser0\<lparr> classList := [''dark'', ''app''], prefersDark := False \<rparr>)) [])
     = Some [''app'', ''light'']"
  by (simp add: root_classes_def model_defs Let_def browser0_def config_defs props_suppress_def)


end
